theory Spec2Isabelle
  imports Complex_Main
begin

section \<open>Application commands of discord.ext.commands.commands\<close>

text \<open>
  A shallow embedding of \<^verbatim>\<open>src/discord/ext/commands/commands.py\<close>: the two
  enumerations, the option and command classes with their \<^verbatim>\<open>__post_init__\<close>,
  \<^verbatim>\<open>__repr__\<close>, \<^verbatim>\<open>__eq__\<close>, \<^verbatim>\<open>__copy__\<close> and \<^verbatim>\<open>from_payload\<close> methods, the
  module-level staging dictionary filled by \<^verbatim>\<open>slash_command\<close>, and
  \<^verbatim>\<open>register_commands\<close>. Every \<^verbatim>\<open>raise\<close> of the source is a value of
  \<open>error\<close>, returned as \<open>Inl\<close>.
\<close>

subsection \<open>Errors\<close>

datatype error =
    InvalidSchema      \<comment> \<open>an integer that is no member value of an enumeration\<close>
  | TypeError          \<comment> \<open>a required keyword argument is missing; \<^verbatim>\<open>issubclass\<close> of a non-class\<close>
  | AttributeError     \<comment> \<open>an attribute that the object does not have\<close>
  | NameError          \<comment> \<open>a name that is not bound at run time\<close>
  | HTTPException      \<comment> \<open>the transport failed\<close>

subsection \<open>Enumerations\<close>

text \<open>
  \<^verbatim>\<open>class ApplicationCommandOptionType(discord.enums.Enum)\<close>, lines 26 to 36: the ten
  names as they are declared, and the integer each is bound to.
\<close>

datatype ApplicationCommandOptionType =
    SUB_COMMAND
  | SUB_COMMAND_GROUP
  | STRING
  | INTEGER
  | BOOLEAN
  | USER
  | CHANNEL
  | ROLE
  | MENTIONABLE
  | NUMBER

fun ApplicationCommandOptionType_value :: "ApplicationCommandOptionType \<Rightarrow> int" where
  "ApplicationCommandOptionType_value SUB_COMMAND = 1"
| "ApplicationCommandOptionType_value SUB_COMMAND_GROUP = 2"
| "ApplicationCommandOptionType_value STRING = 3"
| "ApplicationCommandOptionType_value INTEGER = 4"
| "ApplicationCommandOptionType_value BOOLEAN = 5"
| "ApplicationCommandOptionType_value USER = 6"
| "ApplicationCommandOptionType_value CHANNEL = 7"
| "ApplicationCommandOptionType_value ROLE = 8"
| "ApplicationCommandOptionType_value MENTIONABLE = 8"
| "ApplicationCommandOptionType_value NUMBER = 10"

definition ApplicationCommandOptionType_members :: "ApplicationCommandOptionType list" where
  "ApplicationCommandOptionType_members =
     [SUB_COMMAND, SUB_COMMAND_GROUP, STRING, INTEGER, BOOLEAN, USER, CHANNEL, ROLE,
      MENTIONABLE, NUMBER]"

text \<open>
  Modelled from the spec: the call \<^verbatim>\<open>ApplicationCommandOptionType(v)\<close> of the base class
  \<^verbatim>\<open>discord.enums.Enum\<close>, which is not under src/. The spec asks for an explicit
  integer-to-tag conversion that fails with \<^verbatim>\<open>InvalidSchema\<close> on an integer that is not
  a recognized tag. The member found is the first one declared with that value.
\<close>

definition ApplicationCommandOptionType_call :: "int \<Rightarrow> error + ApplicationCommandOptionType" where
  "ApplicationCommandOptionType_call v =
     (case find (\<lambda>t. ApplicationCommandOptionType_value t = v) ApplicationCommandOptionType_members of
        None \<Rightarrow> Inl InvalidSchema
      | Some t \<Rightarrow> Inr t)"

text \<open>\<^verbatim>\<open>class ApplicationCommandType(discord.enums.Enum)\<close>, lines 39 to 42.\<close>

datatype ApplicationCommandType =
    CHAT_INPUT
  | USER_cmd       \<comment> \<open>\<^verbatim>\<open>USER\<close> in the source\<close>
  | MESSAGE

fun ApplicationCommandType_value :: "ApplicationCommandType \<Rightarrow> int" where
  "ApplicationCommandType_value CHAT_INPUT = 1"
| "ApplicationCommandType_value USER_cmd = 2"
| "ApplicationCommandType_value MESSAGE = 3"

definition ApplicationCommandType_members :: "ApplicationCommandType list" where
  "ApplicationCommandType_members = [CHAT_INPUT, USER_cmd, MESSAGE]"

text \<open>
  Modelled from the spec: the call \<^verbatim>\<open>ApplicationCommandType(v)\<close> of the absent base class
  \<^verbatim>\<open>discord.enums.Enum\<close>, as for the option type.
\<close>

definition ApplicationCommandType_call :: "int \<Rightarrow> error + ApplicationCommandType" where
  "ApplicationCommandType_call v =
     (case find (\<lambda>t. ApplicationCommandType_value t = v) ApplicationCommandType_members of
        None \<Rightarrow> Inl InvalidSchema
      | Some t \<Rightarrow> Inr t)"

subsection \<open>Option choices\<close>

text \<open>
  \<^verbatim>\<open>ApplicationCommandOptionChoice\<close>, lines 83 to 103: a name and a value that is a
  string, an integer or a float.
\<close>

datatype choice_value = StrValue string | IntValue int | FloatValue real

datatype ApplicationCommandOptionChoice =
  ApplicationCommandOptionChoice (choice_name: string) (choice_value: choice_value)

text \<open>
  A mapping given to \<^verbatim>\<open>ApplicationCommandOptionChoice(**buffer_choice)\<close>: each key is
  there (\<open>Some\<close>) or not.
\<close>

datatype choice_kwargs =
  ChoiceKwargs (ck_name: "string option") (ck_value: "choice_value option")

text \<open>The dataclass constructor: both fields are required.\<close>

fun ApplicationCommandOptionChoice_init ::
  "choice_kwargs \<Rightarrow> error + ApplicationCommandOptionChoice" where
  "ApplicationCommandOptionChoice_init (ChoiceKwargs (Some n) (Some v)) =
     Inr (ApplicationCommandOptionChoice n v)"
| "ApplicationCommandOptionChoice_init (ChoiceKwargs _ _) = Inl TypeError"

text \<open>\<^verbatim>\<open>ApplicationCommandOptionChoice.__repr__\<close>, lines 88 to 93.\<close>

fun ApplicationCommandOptionChoice_repr :: "ApplicationCommandOptionChoice \<Rightarrow> choice_kwargs" where
  "ApplicationCommandOptionChoice_repr (ApplicationCommandOptionChoice n v) =
     ChoiceKwargs (Some n) (Some v)"

subsection \<open>Options\<close>

text \<open>
  An element of \<^verbatim>\<open>channel_types\<close>: a member of \<^verbatim>\<open>discord.ChannelType\<close> (a class that
  is not under src/; a member is known by its wire integer \<^verbatim>\<open>.value\<close>), or a plain
  integer, which is what a list read back from a mapping holds, since \<^verbatim>\<open>__post_init__\<close>
  converts no channel type. A plain integer has no attribute \<^verbatim>\<open>value\<close>.
\<close>

datatype channel_type_item = ChannelTypeMember int | ChannelTypeInt int

fun channel_type_value :: "channel_type_item \<Rightarrow> error + int" where
  "channel_type_value (ChannelTypeMember v) = Inr v"
| "channel_type_value (ChannelTypeInt v) = Inl AttributeError"

text \<open>
  \<^verbatim>\<open>ApplicationCommandOption\<close>, lines 106 to 117, after \<^verbatim>\<open>__post_init__\<close>. An option is
  a Python object: \<open>opt_obj\<close> is its identity (what \<^verbatim>\<open>is\<close> compares), which the
  comparison of two lists looks at before it calls \<^verbatim>\<open>__eq__\<close>. The other fields are
  the dataclass fields, in their order.
\<close>

datatype ApplicationCommandOption =
  ApplicationCommandOption
    (opt_obj: nat)
    (opt_type: ApplicationCommandOptionType)
    (opt_name: string)
    (opt_description: string)
    (opt_required: bool)
    (opt_choices: "ApplicationCommandOptionChoice list option")
    (opt_options: "ApplicationCommandOption list option")
    (opt_channel_types: "channel_type_item list option")
    (opt_min_value: "int option")
    (opt_max_value: "int option")
    (opt_autocomplete: bool)

text \<open>
  The arguments of the constructor. The \<^verbatim>\<open>type\<close> is an integer or a member of the
  enumeration. A list argument holds instances or holds mappings (the model has no list
  that mixes both); the empty Python list is either one with no element.
\<close>

datatype type_arg = TypeInt int | TypeMember ApplicationCommandOptionType

datatype choices_arg =
    ChoiceInstances "ApplicationCommandOptionChoice list"
  | ChoiceMappings "choice_kwargs list"

datatype option_kwargs =
  OptionKwargs
    (k_type: "type_arg option")
    (k_name: "string option")
    (k_description: "string option")
    (k_required: "bool option")
    (k_choices: "choices_arg option")
    (k_options: "options_arg option")
    (k_channel_types: "channel_type_item list option")
    (k_min_value: "int option")
    (k_max_value: "int option")
    (k_autocomplete: "bool option")
and options_arg =
    OptionInstances "ApplicationCommandOption list"
  | OptionMappings "option_kwargs list"

text \<open>A keyword argument that is left out takes the default of the signature.\<close>

fun kwarg_default :: "'a \<Rightarrow> 'a option \<Rightarrow> 'a" where
  "kwarg_default d None = d"
| "kwarg_default d (Some v) = v"

text \<open>Lines 120 and 121: an integer type is looked up in the enumeration; a member stays.\<close>

fun post_init_type :: "type_arg \<Rightarrow> error + ApplicationCommandOptionType" where
  "post_init_type (TypeInt v) = ApplicationCommandOptionType_call v"
| "post_init_type (TypeMember t) = Inr t"

text \<open>
  Lines 122 to 126: when some element of \<^verbatim>\<open>choices\<close> is no instance, every element is
  passed to the constructor as a mapping; the loop stops at the first error.
\<close>

fun post_init_choices_loop ::
  "choice_kwargs list \<Rightarrow> error + ApplicationCommandOptionChoice list" where
  "post_init_choices_loop [] = Inr []"
| "post_init_choices_loop (k # ks) =
     (case ApplicationCommandOptionChoice_init k of
        Inl e \<Rightarrow> Inl e
      | Inr c \<Rightarrow>
          (case post_init_choices_loop ks of
             Inl e \<Rightarrow> Inl e
           | Inr cs \<Rightarrow> Inr (c # cs)))"

fun post_init_choices ::
  "choices_arg option \<Rightarrow> error + ApplicationCommandOptionChoice list option" where
  "post_init_choices None = Inr None"
| "post_init_choices (Some (ChoiceInstances cs)) = Inr (Some cs)"
| "post_init_choices (Some (ChoiceMappings ks)) =
     (case post_init_choices_loop ks of
        Inl e \<Rightarrow> Inl e
      | Inr cs \<Rightarrow> Inr (Some cs))"

text \<open>
  The constructor of \<^verbatim>\<open>ApplicationCommandOption\<close>: the generated \<^verbatim>\<open>__init__\<close>, which
  needs \<^verbatim>\<open>type\<close>, \<^verbatim>\<open>name\<close> and \<^verbatim>\<open>description\<close>, then \<^verbatim>\<open>__post_init__\<close>, lines
  119 to 131. The first argument is the next free object identity; the new object takes
  it, the options built from mappings take the following ones, and the next free one is
  returned.
\<close>

fun ApplicationCommandOption_init ::
  "nat \<Rightarrow> option_kwargs \<Rightarrow> error + (ApplicationCommandOption \<times> nat)"
and post_init_options_loop ::
  "nat \<Rightarrow> option_kwargs list \<Rightarrow> error + (ApplicationCommandOption list \<times> nat)" where
  "ApplicationCommandOption_init n (OptionKwargs kt kn kd kr kc ko kct kmin kmax ka) =
     (case (kt, kn, kd) of
        (Some t, Some name, Some description) \<Rightarrow>
          (case post_init_type t of
             Inl e \<Rightarrow> Inl e
           | Inr ty \<Rightarrow>
               (case post_init_choices kc of
                  Inl e \<Rightarrow> Inl e
                | Inr choices \<Rightarrow>
                    (case ko of
                       None \<Rightarrow>
                         Inr (ApplicationCommandOption n ty name description (kwarg_default False kr)
                                choices None kct kmin kmax (kwarg_default False ka), Suc n)
                     | Some (OptionInstances os) \<Rightarrow>
                         Inr (ApplicationCommandOption n ty name description (kwarg_default False kr)
                                choices (Some os) kct kmin kmax (kwarg_default False ka), Suc n)
                     | Some (OptionMappings ks) \<Rightarrow>
                         (case post_init_options_loop (Suc n) ks of
                            Inl e \<Rightarrow> Inl e
                          | Inr (os, n') \<Rightarrow>
                              Inr (ApplicationCommandOption n ty name description
                                     (kwarg_default False kr) choices (Some os) kct kmin kmax
                                     (kwarg_default False ka), n')))))
      | _ \<Rightarrow> Inl TypeError)"
| "post_init_options_loop n [] = Inr ([], n)"
| "post_init_options_loop n (k # ks) =
     (case ApplicationCommandOption_init n k of
        Inl e \<Rightarrow> Inl e
      | Inr (opt, n') \<Rightarrow>
          (case post_init_options_loop n' ks of
             Inl e \<Rightarrow> Inl e
           | Inr (os, n'') \<Rightarrow> Inr (opt # os, n'')))"

text \<open>
  \<^verbatim>\<open>ApplicationCommandOption.from_payload\<close>, lines 183 to 187: without data the
  constructor is called with no argument and fails on the missing ones.
\<close>

fun ApplicationCommandOption_from_payload ::
  "nat \<Rightarrow> option_kwargs option \<Rightarrow> error + (ApplicationCommandOption \<times> nat)" where
  "ApplicationCommandOption_from_payload n None = Inl TypeError"
| "ApplicationCommandOption_from_payload n (Some data) = ApplicationCommandOption_init n data"

text \<open>
  \<^verbatim>\<open>ApplicationCommandOption.__repr__\<close>, lines 133 to 162: the mapping \<^verbatim>\<open>data\<close>. The
  five keys of line 134 are always there, the other five only for a field that is not
  \<^verbatim>\<open>None\<close>. \<^verbatim>\<open>channel_type.value\<close> fails on a plain integer.
\<close>

fun repr_channel_types_loop :: "channel_type_item list \<Rightarrow> error + channel_type_item list" where
  "repr_channel_types_loop [] = Inr []"
| "repr_channel_types_loop (c # cs) =
     (case channel_type_value c of
        Inl e \<Rightarrow> Inl e
      | Inr v \<Rightarrow>
          (case repr_channel_types_loop cs of
             Inl e \<Rightarrow> Inl e
           | Inr vs \<Rightarrow> Inr (ChannelTypeInt v # vs)))"

fun repr_channel_types ::
  "channel_type_item list option \<Rightarrow> error + channel_type_item list option" where
  "repr_channel_types None = Inr None"
| "repr_channel_types (Some cs) =
     (case repr_channel_types_loop cs of
        Inl e \<Rightarrow> Inl e
      | Inr vs \<Rightarrow> Inr (Some vs))"

fun ApplicationCommandOption_repr :: "ApplicationCommandOption \<Rightarrow> error + option_kwargs"
and repr_options_loop :: "ApplicationCommandOption list \<Rightarrow> error + option_kwargs list"
and repr_options :: "ApplicationCommandOption list option \<Rightarrow> error + options_arg option" where
  "ApplicationCommandOption_repr
     (ApplicationCommandOption i ty name description required choices options channel_types
        min_value max_value autocomplete) =
     (case repr_options options of
        Inl e \<Rightarrow> Inl e
      | Inr data_options \<Rightarrow>
          (case repr_channel_types channel_types of
             Inl e \<Rightarrow> Inl e
           | Inr data_channel_types \<Rightarrow>
               Inr (OptionKwargs
                      (Some (TypeInt (ApplicationCommandOptionType_value ty)))
                      (Some name)
                      (Some description)
                      (Some required)
                      (map_option (\<lambda>cs. ChoiceMappings (map ApplicationCommandOptionChoice_repr cs))
                         choices)
                      data_options
                      data_channel_types
                      min_value
                      max_value
                      (Some autocomplete))))"
| "repr_options_loop [] = Inr []"
| "repr_options_loop (opt # os) =
     (case ApplicationCommandOption_repr opt of
        Inl e \<Rightarrow> Inl e
      | Inr k \<Rightarrow>
          (case repr_options_loop os of
             Inl e \<Rightarrow> Inl e
           | Inr ks \<Rightarrow> Inr (k # ks)))"
| "repr_options None = Inr None"
| "repr_options (Some os) =
     (case repr_options_loop os of
        Inl e \<Rightarrow> Inl e
      | Inr ks \<Rightarrow> Inr (Some (OptionMappings ks)))"

text \<open>
  The operator \<^verbatim>\<open>!=\<close> of two Python lists: they differ when their lengths differ or
  when, at some position, the two items are neither the same object nor equal; \<open>item_eq\<close>
  is that test on two items.
\<close>

fun list_ne :: "('a \<Rightarrow> 'b \<Rightarrow> bool) \<Rightarrow> 'a list \<Rightarrow> 'b list \<Rightarrow> bool" where
  "list_ne item_eq [] [] = False"
| "list_ne item_eq (x # xs) (y # ys) = (if item_eq x y then list_ne item_eq xs ys else True)"
| "list_ne item_eq [] (y # ys) = True"
| "list_ne item_eq (x # xs) [] = True"

text \<open>\<^verbatim>\<open>!=\<close> of two values that are each \<^verbatim>\<open>None\<close> or a list.\<close>

fun optional_list_ne :: "('a \<Rightarrow> 'b \<Rightarrow> bool) \<Rightarrow> 'a list option \<Rightarrow> 'b list option \<Rightarrow> bool" where
  "optional_list_ne item_eq None None = False"
| "optional_list_ne item_eq (Some xs) (Some ys) = list_ne item_eq xs ys"
| "optional_list_ne item_eq None (Some ys) = True"
| "optional_list_ne item_eq (Some xs) None = True"

text \<open>
  \<^verbatim>\<open>ApplicationCommandOptionChoice.__eq__\<close> with an option as the other operand, line 96:
  the other operand is no choice. A choice and an option are never the same object.
\<close>

fun ApplicationCommandOptionChoice_eq_option ::
  "ApplicationCommandOptionChoice \<Rightarrow> ApplicationCommandOption \<Rightarrow> bool" where
  "ApplicationCommandOptionChoice_eq_option c opt = False"

text \<open>
  \<^verbatim>\<open>ApplicationCommandOption.__eq__\<close>, lines 164 to 178, with another option as the
  other operand. \<open>options_ne\<close> is \<^verbatim>\<open>!=\<close> on two lists of options (the same object, or
  \<^verbatim>\<open>__eq__\<close>, item by item) and \<open>optional_options_ne\<close> is \<^verbatim>\<open>self.options != other.options\<close>.
  The last disjunct, line 176, compares the choices of \<^verbatim>\<open>self\<close> with the options of
  \<^verbatim>\<open>other\<close>.
\<close>

fun ApplicationCommandOption_eq :: "ApplicationCommandOption \<Rightarrow> ApplicationCommandOption \<Rightarrow> bool"
and options_ne :: "ApplicationCommandOption list \<Rightarrow> ApplicationCommandOption list \<Rightarrow> bool"
and optional_options_ne ::
  "ApplicationCommandOption list option \<Rightarrow> ApplicationCommandOption list option \<Rightarrow> bool" where
  "ApplicationCommandOption_eq
     (ApplicationCommandOption i ty name description required choices options channel_types
        min_value max_value autocomplete)
     other =
     (if ApplicationCommandOptionType_value ty \<noteq> ApplicationCommandOptionType_value (opt_type other)
         \<or> name \<noteq> opt_name other
         \<or> description \<noteq> opt_description other
         \<or> autocomplete \<noteq> opt_autocomplete other
         \<or> max_value \<noteq> opt_max_value other
         \<or> min_value \<noteq> opt_min_value other
         \<or> channel_types \<noteq> opt_channel_types other
         \<or> required \<noteq> opt_required other
         \<or> optional_options_ne options (opt_options other)
         \<or> optional_list_ne ApplicationCommandOptionChoice_eq_option choices (opt_options other)
      then False
      else True)"
| "options_ne [] [] = False"
| "options_ne (x # xs) (y # ys) =
     (if opt_obj x = opt_obj y \<or> ApplicationCommandOption_eq x y then options_ne xs ys else True)"
| "options_ne [] (y # ys) = True"
| "options_ne (x # xs) [] = True"
| "optional_options_ne None None = False"
| "optional_options_ne (Some xs) (Some ys) = options_ne xs ys"
| "optional_options_ne None (Some ys) = True"
| "optional_options_ne (Some xs) None = True"

subsection \<open>Callbacks and their annotations\<close>

text \<open>
  A Python class, as far as \<^verbatim>\<open>issubclass\<close> sees it: its name and its base classes.
  \<^verbatim>\<open>issubclass(c, d)\<close> holds when \<open>c\<close> is \<open>d\<close> or one of its bases is a subclass of
  \<open>d\<close>.
\<close>

datatype py_class = PyClass (class_name: string) (class_bases: "py_class list")

fun issubclass :: "py_class \<Rightarrow> py_class \<Rightarrow> bool"
and any_issubclass :: "py_class list \<Rightarrow> py_class \<Rightarrow> bool" where
  "issubclass (PyClass n bs) d = (PyClass n bs = d \<or> any_issubclass bs d)"
| "any_issubclass [] d = False"
| "any_issubclass (b # bs) d = (issubclass b d \<or> any_issubclass bs d)"

text \<open>The built-in classes that \<^verbatim>\<open>slash_command\<close> tests; \<^verbatim>\<open>bool\<close> derives from \<^verbatim>\<open>int\<close>.\<close>

definition object_class :: py_class where
  "object_class = PyClass ''object'' []"

definition str_class :: py_class where
  "str_class = PyClass ''str'' [object_class]"

definition int_class :: py_class where
  "int_class = PyClass ''int'' [object_class]"

definition bool_class :: py_class where
  "bool_class = PyClass ''bool'' [int_class]"

definition float_class :: py_class where
  "float_class = PyClass ''float'' [object_class]"

text \<open>
  The classes of the \<^verbatim>\<open>discord\<close> package that \<^verbatim>\<open>slash_command\<close> tests. They are not
  under src/; each is taken as a class of its own that derives from no built-in class
  other than \<^verbatim>\<open>object\<close>.
\<close>

definition discord_User :: py_class where
  "discord_User = PyClass ''discord.User'' [object_class]"

definition discord_abc_GuildChannel :: py_class where
  "discord_abc_GuildChannel = PyClass ''discord.abc.GuildChannel'' [object_class]"

definition discord_Role :: py_class where
  "discord_Role = PyClass ''discord.Role'' [object_class]"

definition discord_Mentionable :: py_class where
  "discord_Mentionable = PyClass ''discord.Mentionable'' [object_class]"

text \<open>An annotation is a class, or some other object, on which \<^verbatim>\<open>issubclass\<close> fails.\<close>

datatype annotation = AnnotationClass py_class | AnnotationOther

text \<open>
  What \<^verbatim>\<open>slash_command\<close> reads of a callback: \<^verbatim>\<open>__name__\<close>, the documentation string
  that \<^verbatim>\<open>inspect.getdoc\<close> returns, and the annotations of
  \<^verbatim>\<open>inspect.getfullargspec\<close>, in their order.
\<close>

record callback =
  cb_name :: string
  cb_doc :: "string option"
  cb_annotations :: "(string \<times> annotation) list"

subsection \<open>Commands\<close>

typedecl Cog

text \<open>The attributes of an \<^verbatim>\<open>ApplicationCommand\<close>, in the order \<^verbatim>\<open>__init__\<close> sets them.\<close>

record ApplicationCommand =
  cmd_callback :: "callback option"
  cmd_id :: "int option"
  cmd_type :: ApplicationCommandType
  cmd_application_id :: "int option"
  cmd_guild_id :: "int option"
  cmd_name :: string
  cmd_description :: string
  cmd_options :: "ApplicationCommandOption list option"
  cmd_default_permission :: bool
  cmd_default_member_permissions :: "bool option"
  cmd_dm_permission :: "bool option"
  cmd_version :: "int option"
  cmd_cog :: "Cog option"

text \<open>
  The keyword arguments of \<^verbatim>\<open>ApplicationCommand.__init__\<close>, lines 192 to 204, each
  given or left out; the same record is the mapping that \<^verbatim>\<open>__repr__\<close> returns and
  that \<^verbatim>\<open>from_payload\<close> takes.
\<close>

datatype command_type_arg = CommandTypeInt int | CommandTypeMember ApplicationCommandType

record command_kwargs =
  kc_name :: "string option"
  kc_description :: "string option"
  kc_callback :: "callback option"
  kc_id :: "int option"
  kc_application_id :: "int option"
  kc_version :: "int option"
  kc_type :: "command_type_arg option"
  kc_guild_id :: "int option"
  kc_options :: "options_arg option"
  kc_default_permission :: "bool option"
  kc_default_member_permissions :: "bool option"
  kc_dm_permission :: "bool option"
  kc_cog :: "Cog option"

definition no_kwargs :: command_kwargs where
  "no_kwargs =
     \<lparr>kc_name = None, kc_description = None, kc_callback = None, kc_id = None,
      kc_application_id = None, kc_version = None, kc_type = None, kc_guild_id = None,
      kc_options = None, kc_default_permission = None, kc_default_member_permissions = None,
      kc_dm_permission = None, kc_cog = None\<rparr>"

text \<open>Lines 207 to 210: an integer type is looked up in the enumeration.\<close>

fun init_command_type :: "command_type_arg option \<Rightarrow> error + ApplicationCommandType" where
  "init_command_type None = Inr CHAT_INPUT"
| "init_command_type (Some (CommandTypeInt v)) = ApplicationCommandType_call v"
| "init_command_type (Some (CommandTypeMember t)) = Inr t"

text \<open>Lines 219 to 221: every mapping goes through \<^verbatim>\<open>ApplicationCommandOption.from_payload\<close>.\<close>

fun init_options_loop ::
  "nat \<Rightarrow> option_kwargs list \<Rightarrow> error + (ApplicationCommandOption list \<times> nat)" where
  "init_options_loop n [] = Inr ([], n)"
| "init_options_loop n (k # ks) =
     (case ApplicationCommandOption_from_payload n (Some k) of
        Inl e \<Rightarrow> Inl e
      | Inr (opt, n') \<Rightarrow>
          (case init_options_loop n' ks of
             Inl e \<Rightarrow> Inl e
           | Inr (os, n'') \<Rightarrow> Inr (opt # os, n'')))"

text \<open>
  Lines 216 to 221: \<^verbatim>\<open>None\<close>, or a list with an instance in it, is stored as it is; any
  other list (the empty one too) is rebuilt.
\<close>

fun init_options ::
  "nat \<Rightarrow> options_arg option \<Rightarrow> error + (ApplicationCommandOption list option \<times> nat)" where
  "init_options n None = Inr (None, n)"
| "init_options n (Some (OptionInstances os)) =
     (if os \<noteq> [] then Inr (Some os, n) else Inr (Some [], n))"
| "init_options n (Some (OptionMappings ks)) =
     (case init_options_loop n ks of
        Inl e \<Rightarrow> Inl e
      | Inr (os, n') \<Rightarrow> Inr (Some os, n'))"

text \<open>
  \<^verbatim>\<open>ApplicationCommand.__init__\<close>, lines 192 to 226. \<^verbatim>\<open>name\<close> and \<^verbatim>\<open>description\<close> are
  required. The first argument is the next free object identity, for the options that the
  constructor builds.
\<close>

definition ApplicationCommand_init ::
  "nat \<Rightarrow> command_kwargs \<Rightarrow> error + (ApplicationCommand \<times> nat)" where
  "ApplicationCommand_init n kw =
     (case (kc_name kw, kc_description kw) of
        (Some name, Some description) \<Rightarrow>
          (case init_command_type (kc_type kw) of
             Inl e \<Rightarrow> Inl e
           | Inr ty \<Rightarrow>
               (case init_options n (kc_options kw) of
                  Inl e \<Rightarrow> Inl e
                | Inr (options, n') \<Rightarrow>
                    Inr (\<lparr>cmd_callback = kc_callback kw,
                          cmd_id = kc_id kw,
                          cmd_type = ty,
                          cmd_application_id = kc_application_id kw,
                          cmd_guild_id = kc_guild_id kw,
                          cmd_name = name,
                          cmd_description = description,
                          cmd_options = options,
                          cmd_default_permission = kwarg_default True (kc_default_permission kw),
                          cmd_default_member_permissions = kc_default_member_permissions kw,
                          cmd_dm_permission = kc_dm_permission kw,
                          cmd_version = kc_version kw,
                          cmd_cog = kc_cog kw\<rparr>, n')))
      | _ \<Rightarrow> Inl TypeError)"

text \<open>\<^verbatim>\<open>ApplicationCommand.from_payload\<close>, lines 228 to 232.\<close>

fun ApplicationCommand_from_payload ::
  "nat \<Rightarrow> command_kwargs option \<Rightarrow> error + (ApplicationCommand \<times> nat)" where
  "ApplicationCommand_from_payload n None = Inl TypeError"
| "ApplicationCommand_from_payload n (Some data) = ApplicationCommand_init n data"

text \<open>
  \<^verbatim>\<open>ApplicationCommand.__copy__\<close>, lines 234 to 239: the constructor with five
  arguments, the list of options being the one of \<^verbatim>\<open>self\<close>.
\<close>

definition ApplicationCommand_copy ::
  "nat \<Rightarrow> ApplicationCommand \<Rightarrow> error + (ApplicationCommand \<times> nat)" where
  "ApplicationCommand_copy n self =
     ApplicationCommand_init n
       (no_kwargs
          \<lparr>kc_type := Some (CommandTypeMember (cmd_type self)),
           kc_name := Some (cmd_name self),
           kc_description := Some (cmd_description self),
           kc_callback := cmd_callback self,
           kc_options := map_option OptionInstances (cmd_options self)\<rparr>)"

text \<open>\<^verbatim>\<open>ApplicationCommand.__repr__\<close>, lines 241 to 260.\<close>

definition ApplicationCommand_repr :: "ApplicationCommand \<Rightarrow> error + command_kwargs" where
  "ApplicationCommand_repr self =
     (case repr_options (cmd_options self) of
        Inl e \<Rightarrow> Inl e
      | Inr data_options \<Rightarrow>
          Inr (no_kwargs
                 \<lparr>kc_name := Some (cmd_name self),
                  kc_description := Some (cmd_description self),
                  kc_type := Some (CommandTypeInt (ApplicationCommandType_value (cmd_type self))),
                  kc_default_permission := Some (cmd_default_permission self),
                  kc_id := cmd_id self,
                  kc_application_id := cmd_application_id self,
                  kc_version := cmd_version self,
                  kc_guild_id := cmd_guild_id self,
                  kc_options := data_options\<rparr>))"

text \<open>
  \<^verbatim>\<open>ApplicationCommand.__eq__\<close>, lines 262 to 274, with another command as the other
  operand.
\<close>

definition ApplicationCommand_eq :: "ApplicationCommand \<Rightarrow> ApplicationCommand \<Rightarrow> bool" where
  "ApplicationCommand_eq self other =
     (if ApplicationCommandType_value (cmd_type self) \<noteq> ApplicationCommandType_value (cmd_type other)
         \<or> cmd_name self \<noteq> cmd_name other
         \<or> cmd_description self \<noteq> cmd_description other
         \<or> cmd_guild_id self \<noteq> cmd_guild_id other
         \<or> cmd_default_permission self \<noteq> cmd_default_permission other
         \<or> cmd_default_member_permissions self \<noteq> cmd_default_member_permissions other
         \<or> cmd_dm_permission self \<noteq> cmd_dm_permission other
         \<or> optional_options_ne (cmd_options self) (cmd_options other)
      then False
      else True)"

subsection \<open>The module state and \<^verbatim>\<open>slash_command\<close>\<close>

text \<open>
  The three module-level dictionaries of lines 18 to 20, and the next free object
  identity. \<^verbatim>\<open>_pre_registration_commands\<close> maps a guild id, or \<^verbatim>\<open>None\<close> for the global
  scope, to the list of the commands declared for it.
\<close>

record module_state =
  next_obj :: nat
  pre_registration_commands :: "int option \<rightharpoonup> ApplicationCommand list"
  registered_global_commands :: "int \<rightharpoonup> ApplicationCommand"
  registered_guild_commands :: "int \<rightharpoonup> ApplicationCommand"

definition initial_state :: module_state where
  "initial_state =
     \<lparr>next_obj = 0, pre_registration_commands = Map.empty,
      registered_global_commands = Map.empty, registered_guild_commands = Map.empty\<rparr>"

text \<open>
  Lines 348 to 367: the option type for one annotation. Line 359 reads the attribute
  \<^verbatim>\<open>ROLE\<close> of \<^verbatim>\<open>ApplicationCommandType\<close>, which has none; line 366 uses the name
  \<^verbatim>\<open>InvalidArgument\<close>, which line 8 imports for the type checker only.
\<close>

fun annotation_option_type :: "annotation \<Rightarrow> error + ApplicationCommandOptionType" where
  "annotation_option_type (AnnotationClass arg_type) =
     (if issubclass arg_type str_class then Inr STRING
      else if issubclass arg_type int_class then Inr INTEGER
      else if issubclass arg_type bool_class then Inr BOOLEAN
      else if issubclass arg_type discord_User then Inr USER
      else if issubclass arg_type discord_abc_GuildChannel then Inr CHANNEL
      else if issubclass arg_type discord_Role then Inl AttributeError
      else if issubclass arg_type discord_Mentionable then Inr MENTIONABLE
      else if issubclass arg_type float_class then Inr NUMBER
      else Inl NameError)"
| "annotation_option_type AnnotationOther = Inl TypeError"

text \<open>Lines 347 to 370: one option for each annotation, in their order.\<close>

fun annotation_options ::
  "nat \<Rightarrow> (string \<times> annotation) list \<Rightarrow> error + (ApplicationCommandOption list \<times> nat)" where
  "annotation_options n [] = Inr ([], n)"
| "annotation_options n ((arg_name, arg_type) # rest) =
     (case annotation_option_type arg_type of
        Inl e \<Rightarrow> Inl e
      | Inr current_type \<Rightarrow>
          (case ApplicationCommandOption_init n
                  (OptionKwargs (Some (TypeMember current_type)) (Some arg_name)
                     (Some ''temporary description'') None None None None None None None) of
             Inl e \<Rightarrow> Inl e
           | Inr (opt, n') \<Rightarrow>
               (case annotation_options n' rest of
                  Inl e \<Rightarrow> Inl e
                | Inr (os, n'') \<Rightarrow> Inr (opt # os, n''))))"

text \<open>Lines 375 to 377: the command is appended to the list of its scope.\<close>

definition stage ::
  "int option \<Rightarrow> ApplicationCommand \<Rightarrow> (int option \<rightharpoonup> ApplicationCommand list)
   \<Rightarrow> (int option \<rightharpoonup> ApplicationCommand list)" where
  "stage guild_id command reg =
     (let reg' = (if guild_id \<notin> dom reg then reg(guild_id \<mapsto> []) else reg)
      in reg'(guild_id \<mapsto> the (reg' guild_id) @ [command]))"

text \<open>The list held under a scope key, empty when the key is not there.\<close>

definition staged ::
  "(int option \<rightharpoonup> ApplicationCommand list) \<Rightarrow> int option \<Rightarrow> ApplicationCommand list" where
  "staged reg guild_id = (case reg guild_id of None \<Rightarrow> [] | Some commands \<Rightarrow> commands)"

text \<open>A value that Python takes as false in \<^verbatim>\<open>if not x\<close>: \<^verbatim>\<open>None\<close> or the empty string.\<close>

fun falsy :: "string option \<Rightarrow> bool" where
  "falsy None = True"
| "falsy (Some s) = (s = [])"

text \<open>\<^verbatim>\<open>slash_command\<close>, lines 336 to 378.\<close>

definition slash_command ::
  "callback \<Rightarrow> string option \<Rightarrow> string option \<Rightarrow> int option \<Rightarrow> module_state
   \<Rightarrow> error + (ApplicationCommand \<times> module_state)" where
  "slash_command cb name description guild_id st =
     (let description1 = (if falsy description then cb_doc cb else description);
          description2 = (if falsy description1 then ''No description yet'' else the description1);
          name1 = (if falsy name then cb_name cb else the name)
      in case (if length (cb_annotations cb) > 0
               then (case annotation_options (next_obj st) (cb_annotations cb) of
                       Inl e \<Rightarrow> Inl e
                     | Inr (os, n) \<Rightarrow> Inr (Some (OptionInstances os), n))
               else Inr (None, next_obj st)) of
           Inl e \<Rightarrow> Inl e
         | Inr (options, n) \<Rightarrow>
             (case ApplicationCommand_init n
                     (no_kwargs
                        \<lparr>kc_type := Some (CommandTypeMember CHAT_INPUT),
                         kc_name := Some name1,
                         kc_description := Some description2,
                         kc_callback := Some cb,
                         kc_guild_id := guild_id,
                         kc_options := options\<rparr>) of
                Inl e \<Rightarrow> Inl e
              | Inr (command, n') \<Rightarrow>
                  Inr (command,
                       st\<lparr>next_obj := n',
                          pre_registration_commands :=
                            stage guild_id command (pre_registration_commands st)\<rparr>)))"

text \<open>A sequence of calls of \<^verbatim>\<open>slash_command\<close>, each with its arguments; the first error ends it.\<close>

record slash_call =
  call_callback :: callback
  call_name :: "string option"
  call_description :: "string option"
  call_guild_id :: "int option"

fun slash_commands ::
  "slash_call list \<Rightarrow> module_state \<Rightarrow> error + (ApplicationCommand list \<times> module_state)" where
  "slash_commands [] st = Inr ([], st)"
| "slash_commands (d # ds) st =
     (case slash_command (call_callback d) (call_name d) (call_description d) (call_guild_id d) st of
        Inl e \<Rightarrow> Inl e
      | Inr (command, st') \<Rightarrow>
          (case slash_commands ds st' of
             Inl e \<Rightarrow> Inl e
           | Inr (commands, st'') \<Rightarrow> Inr (command # commands, st'')))"

subsection \<open>\<^verbatim>\<open>register_commands\<close>\<close>

text \<open>
  The route of line 304 and the request that \<^verbatim>\<open>bot._connection.http.request\<close> is given:
  the method, the path template with its two parameters, and the \<^verbatim>\<open>json\<close> argument.
\<close>

record Route =
  route_method :: string
  route_path :: string
  route_application_id :: int
  route_guild_id :: int

record request =
  req_route :: Route
  req_json :: "ApplicationCommand list"

text \<open>One entry of a response: the identity that the remote side assigned.\<close>

record response_entry =
  r_id :: int
  r_application_id :: int
  r_version :: int

text \<open>
  What \<^verbatim>\<open>register_commands\<close> reads of the bot: the result of \<^verbatim>\<open>application_info()\<close>
  (the application id, or an error), the ids of \<^verbatim>\<open>bot.guilds\<close>, and the transport, which
  answers a request with an error or with a list of entries.
\<close>

record Bot =
  bot_application_info :: "error + int"
  bot_guilds :: "int list"
  bot_http_request :: "request \<Rightarrow> error + response_entry list"

text \<open>Lines 303 to 306: the request for one guild, with the list given as \<^verbatim>\<open>json\<close>.\<close>

definition guild_request :: "int \<Rightarrow> int \<Rightarrow> ApplicationCommand list \<Rightarrow> request" where
  "guild_request application_id guild json =
     \<lparr>req_route =
        \<lparr>route_method = ''PUT'',
         route_path = ''/applications/{application_id}/guilds/{guild_id}/commands'',
         route_application_id = application_id,
         route_guild_id = guild\<rparr>,
      req_json = json\<rparr>"

text \<open>
  The loop of lines 300 to 306, with the requests sent so far: one request for each guild,
  its \<^verbatim>\<open>json\<close> the list built at line 301; the result is bound and not read. An error of
  the transport ends the loop.
\<close>

fun register_guilds_loop ::
  "(request \<Rightarrow> error + response_entry list) \<Rightarrow> int \<Rightarrow> ApplicationCommand list \<Rightarrow> int list
   \<Rightarrow> request list \<Rightarrow> (error + unit) \<times> request list" where
  "register_guilds_loop http application_id pre_registration_guild_commands [] sent =
     (Inr (), sent)"
| "register_guilds_loop http application_id pre_registration_guild_commands (guild # guilds) sent =
     (let pre_registration_guild_commands_data =
            map (\<lambda>command. command) pre_registration_guild_commands;
          req = guild_request application_id guild pre_registration_guild_commands_data
      in case http req of
           Inl e \<Rightarrow> (Inl e, sent @ [req])
         | Inr result \<Rightarrow>
             register_guilds_loop http application_id pre_registration_guild_commands guilds
               (sent @ [req]))"

text \<open>
  \<^verbatim>\<open>register_commands\<close>, lines 280 to 317: the outcome, the requests sent, and the module
  state after the call. \<^verbatim>\<open>pre_registration_guild_commands\<close> is the empty list of line
  284; nothing is sent for the global scope, and no dictionary of the module is read or
  written.
\<close>

definition register_commands ::
  "Bot \<Rightarrow> module_state \<Rightarrow> (error + unit) \<times> request list \<times> module_state" where
  "register_commands the_bot st =
     (case bot_application_info the_bot of
        Inl e \<Rightarrow> (Inl e, [], st)
      | Inr application_id \<Rightarrow>
          (let pre_registration_guild_commands = [];
               (outcome, sent) =
                 register_guilds_loop (bot_http_request the_bot) application_id
                   pre_registration_guild_commands (bot_guilds the_bot) []
           in (outcome, sent, st)))"

subsection \<open>Options that survive the way through a mapping\<close>

text \<open>
  An option with no channel type, and with its choices and its nested options either both
  absent or both empty.
\<close>

definition plain_option :: "ApplicationCommandOption \<Rightarrow> bool" where
  "plain_option opt =
     ((opt_channel_types opt = None \<or> opt_channel_types opt = Some [])
      \<and> ((opt_choices opt = None \<and> opt_options opt = None)
         \<or> (opt_choices opt = Some [] \<and> opt_options opt = Some [])))"

subsection \<open>Example values\<close>

text \<open>
  A callback with no annotation, the command that \<^verbatim>\<open>slash_command\<close> builds for it in a
  scope, and a bot in guilds 1 and 2 whose transport answers every request with one entry
  for each definition submitted.
\<close>

definition ping_callback :: callback where
  "ping_callback = \<lparr>cb_name = ''ping'', cb_doc = Some ''Replies with pong'', cb_annotations = []\<rparr>"

definition ping_command :: "int option \<Rightarrow> ApplicationCommand" where
  "ping_command guild_id =
     \<lparr>cmd_callback = Some ping_callback, cmd_id = None, cmd_type = CHAT_INPUT,
      cmd_application_id = None, cmd_guild_id = guild_id, cmd_name = ''ping'',
      cmd_description = ''Replies with pong'', cmd_options = None,
      cmd_default_permission = True, cmd_default_member_permissions = None,
      cmd_dm_permission = None, cmd_version = None, cmd_cog = None\<rparr>"

definition ping_call :: "int option \<Rightarrow> slash_call" where
  "ping_call guild_id =
     \<lparr>call_callback = ping_callback, call_name = None, call_description = None,
      call_guild_id = guild_id\<rparr>"

definition echo_bot :: Bot where
  "echo_bot =
     \<lparr>bot_application_info = Inr 7,
      bot_guilds = [1, 2],
      bot_http_request =
        (\<lambda>req. Inr (map (\<lambda>command. \<lparr>r_id = 42, r_application_id = 7, r_version = 1\<rparr>)
                       (req_json req)))\<rparr>"

text \<open>A bot in guilds 1, 2 and 3 whose transport fails on the request for guild 2.\<close>

definition failing_bot :: Bot where
  "failing_bot =
     \<lparr>bot_application_info = Inr 7,
      bot_guilds = [1, 2, 3],
      bot_http_request =
        (\<lambda>req. if route_guild_id (req_route req) = 2 then Inl HTTPException else Inr [])\<rparr>"

section \<open>Properties\<close>

subsection \<open>The option type enumeration\<close>

text \<open>
  C7. The claim: the ten tags of the option type each have their own wire integer, and in
  particular \<^verbatim>\<open>ROLE\<close> and \<^verbatim>\<open>MENTIONABLE\<close> have different ones. The source binds both
  names to 8 and no name to 9: the two tags share one wire integer, the value map is not
  injective, and the ten names carry nine distinct integers.
\<close>

theorem C7_role_mentionable_same_value:
  "ROLE \<noteq> MENTIONABLE
   \<and> ApplicationCommandOptionType_value ROLE = 8
   \<and> ApplicationCommandOptionType_value MENTIONABLE = 8
   \<and> length ApplicationCommandOptionType_members = 10
   \<and> card (ApplicationCommandOptionType_value ` set ApplicationCommandOptionType_members) = 9"
  by (simp add: ApplicationCommandOptionType_members_def)

subsection \<open>Equality of options\<close>

text \<open>A list compared with itself is equal whatever \<^verbatim>\<open>__eq__\<close> says: each item is the same object.\<close>

lemma options_ne_same: "options_ne xs xs = False"
  by (induction xs) simp_all

lemma optional_options_ne_same: "optional_options_ne x x = False"
  by (cases x) (simp_all add: options_ne_same)

text \<open>
  C1. The claim: two options are equal exactly when every field matches, the choices of
  one being compared with the choices of the other. Line 176 compares \<^verbatim>\<open>self.choices\<close>
  with \<^verbatim>\<open>other.options\<close>. Two separately built options with the same ten fields, among
  them one choice and no nested option, are not equal; and an option with no choices is
  equal to one that differs from it only by having a choice.
\<close>

theorem C1_eq_compares_choices_with_options:
  "\<not> ApplicationCommandOption_eq
        (ApplicationCommandOption 0 STRING ''color'' ''pick one'' False
           (Some [ApplicationCommandOptionChoice ''red'' (StrValue ''r'')]) None None None None
           False)
        (ApplicationCommandOption 1 STRING ''color'' ''pick one'' False
           (Some [ApplicationCommandOptionChoice ''red'' (StrValue ''r'')]) None None None None
           False)
   \<and> ApplicationCommandOption_eq
        (ApplicationCommandOption 0 STRING ''color'' ''pick one'' False None None None None None
           False)
        (ApplicationCommandOption 1 STRING ''color'' ''pick one'' False
           (Some [ApplicationCommandOptionChoice ''red'' (StrValue ''r'')]) None None None None
           False)"
  by simp

text \<open>
  C9. An option built with the integer 4 as its type is the option built with the member
  \<^verbatim>\<open>INTEGER\<close>, whatever the other arguments are (the constructor gives the same result
  on both); and for every name and description, with any \<^verbatim>\<open>required\<close>,
  \<^verbatim>\<open>channel_types\<close>, \<^verbatim>\<open>min_value\<close>, \<^verbatim>\<open>max_value\<close> and \<^verbatim>\<open>autocomplete\<close>, the two
  objects, which are different objects, compare equal with \<^verbatim>\<open>__eq__\<close> in both orders.
\<close>

theorem C9_integer_tag_equals_member:
  "ApplicationCommandOption_init n
       (OptionKwargs (Some (TypeInt 4)) kn kd kr kc ko kct kmin kmax ka)
     = ApplicationCommandOption_init n
         (OptionKwargs (Some (TypeMember INTEGER)) kn kd kr kc ko kct kmin kmax ka)
   \<and> ApplicationCommandOption_init n
         (OptionKwargs (Some (TypeInt 4)) (Some name) (Some description) kr None None kct kmin
            kmax ka)
       = Inr (ApplicationCommandOption n INTEGER name description (kwarg_default False kr) None None
                kct kmin kmax (kwarg_default False ka), Suc n)
   \<and> ApplicationCommandOption_init m
         (OptionKwargs (Some (TypeMember INTEGER)) (Some name) (Some description) kr None None
            kct kmin kmax ka)
       = Inr (ApplicationCommandOption m INTEGER name description (kwarg_default False kr) None None
                kct kmin kmax (kwarg_default False ka), Suc m)
   \<and> ApplicationCommandOption_eq
         (ApplicationCommandOption n INTEGER name description (kwarg_default False kr) None None kct
            kmin kmax (kwarg_default False ka))
         (ApplicationCommandOption m INTEGER name description (kwarg_default False kr) None None kct
            kmin kmax (kwarg_default False ka))
   \<and> ApplicationCommandOption_eq
         (ApplicationCommandOption m INTEGER name description (kwarg_default False kr) None None kct
            kmin kmax (kwarg_default False ka))
         (ApplicationCommandOption n INTEGER name description (kwarg_default False kr) None None kct
            kmin kmax (kwarg_default False ka))"
  by (cases kn; cases kd;
      simp add: ApplicationCommandOptionType_call_def ApplicationCommandOptionType_members_def)

theorem C9_integer_tag_equals_member_witness:
  "ApplicationCommandOption_init 0
       (OptionKwargs (Some (TypeInt 4)) (Some ''count'') (Some ''how many'') None None None None
          None None None)
     = Inr (ApplicationCommandOption 0 INTEGER ''count'' ''how many'' False None None None None
              None False, 1)
   \<and> ApplicationCommandOption_init 1
         (OptionKwargs (Some (TypeMember INTEGER)) (Some ''count'') (Some ''how many'') None None
            None None None None None)
       = Inr (ApplicationCommandOption 1 INTEGER ''count'' ''how many'' False None None None None
                None False, 2)
   \<and> ApplicationCommandOption_eq
         (ApplicationCommandOption 0 INTEGER ''count'' ''how many'' False None None None None None
            False)
         (ApplicationCommandOption 1 INTEGER ''count'' ''how many'' False None None None None None
            False)"
  using C9_integer_tag_equals_member
    [of 0 "Some ''count''" "Some ''how many''" None None None None None None None
       "''count''" "''how many''" 1]
  by simp

subsection \<open>Unrecognized type tags\<close>

lemma ApplicationCommandOptionType_call_unrecognized:
  "(\<forall>t. ApplicationCommandOptionType_value t \<noteq> v)
   \<Longrightarrow> ApplicationCommandOptionType_call v = Inl InvalidSchema"
  by (simp add: ApplicationCommandOptionType_call_def ApplicationCommandOptionType_members_def)




subsection \<open>Copies of commands\<close>

text \<open>
  C4, as the claim states it: \<^verbatim>\<open>copy(d) == d\<close> also for a command whose guild is set. A
  registered command of guild 5 is not equal to its copy: the copy has no guild.
\<close>

theorem C4_copy_of_guild_command_differs:
  "ApplicationCommand_copy 0
       \<lparr>cmd_callback = None, cmd_id = Some 42, cmd_type = CHAT_INPUT,
        cmd_application_id = Some 7, cmd_guild_id = Some 5, cmd_name = ''ping'',
        cmd_description = ''Replies with pong'', cmd_options = None,
        cmd_default_permission = True, cmd_default_member_permissions = None,
        cmd_dm_permission = None, cmd_version = Some 1, cmd_cog = None\<rparr>
     = Inr (\<lparr>cmd_callback = None, cmd_id = None, cmd_type = CHAT_INPUT,
             cmd_application_id = None, cmd_guild_id = None, cmd_name = ''ping'',
             cmd_description = ''Replies with pong'', cmd_options = None,
             cmd_default_permission = True, cmd_default_member_permissions = None,
             cmd_dm_permission = None, cmd_version = None, cmd_cog = None\<rparr>, 0)
   \<and> \<not> ApplicationCommand_eq
         \<lparr>cmd_callback = None, cmd_id = None, cmd_type = CHAT_INPUT,
          cmd_application_id = None, cmd_guild_id = None, cmd_name = ''ping'',
          cmd_description = ''Replies with pong'', cmd_options = None,
          cmd_default_permission = True, cmd_default_member_permissions = None,
          cmd_dm_permission = None, cmd_version = None, cmd_cog = None\<rparr>
         \<lparr>cmd_callback = None, cmd_id = Some 42, cmd_type = CHAT_INPUT,
          cmd_application_id = Some 7, cmd_guild_id = Some 5, cmd_name = ''ping'',
          cmd_description = ''Replies with pong'', cmd_options = None,
          cmd_default_permission = True, cmd_default_member_permissions = None,
          cmd_dm_permission = None, cmd_version = Some 1, cmd_cog = None\<rparr>"
  by (simp add: ApplicationCommand_copy_def ApplicationCommand_init_def no_kwargs_def
      ApplicationCommand_eq_def)

text \<open>
  C4, amended. For every command \<open>d\<close>, whatever its identity fields, its callback and its
  options: \<^verbatim>\<open>copy(d)\<close> is \<open>d\<close> with the identity fields, the guild, the cog and the two
  optional permission flags absent and \<^verbatim>\<open>default_permission\<close> true, and it shares the
  list of options of \<open>d\<close>; it compares equal to \<open>d\<close> exactly when \<open>d\<close> has no guild, no
  optional permission flag and a true \<^verbatim>\<open>default_permission\<close>.
\<close>

theorem C4_copy_eq_iff_unscoped:
  "ApplicationCommand_copy n d
     = Inr (d\<lparr>cmd_id := None, cmd_application_id := None, cmd_guild_id := None,
              cmd_default_permission := True, cmd_default_member_permissions := None,
              cmd_dm_permission := None, cmd_version := None, cmd_cog := None\<rparr>, n)
   \<and> ApplicationCommand_eq
         (d\<lparr>cmd_id := None, cmd_application_id := None, cmd_guild_id := None,
            cmd_default_permission := True, cmd_default_member_permissions := None,
            cmd_dm_permission := None, cmd_version := None, cmd_cog := None\<rparr>)
         d
       = (cmd_guild_id d = None \<and> cmd_default_permission d
          \<and> cmd_default_member_permissions d = None \<and> cmd_dm_permission d = None)"
proof
  show "ApplicationCommand_copy n d
     = Inr (d\<lparr>cmd_id := None, cmd_application_id := None, cmd_guild_id := None,
              cmd_default_permission := True, cmd_default_member_permissions := None,
              cmd_dm_permission := None, cmd_version := None, cmd_cog := None\<rparr>, n)"
    by (cases "cmd_options d")
       (simp_all add: ApplicationCommand_copy_def ApplicationCommand_init_def no_kwargs_def)
  show "ApplicationCommand_eq
         (d\<lparr>cmd_id := None, cmd_application_id := None, cmd_guild_id := None,
            cmd_default_permission := True, cmd_default_member_permissions := None,
            cmd_dm_permission := None, cmd_version := None, cmd_cog := None\<rparr>)
         d
       = (cmd_guild_id d = None \<and> cmd_default_permission d
          \<and> cmd_default_member_permissions d = None \<and> cmd_dm_permission d = None)"
    by (auto simp add: ApplicationCommand_eq_def optional_options_ne_same)
qed

theorem C4_copy_eq_iff_unscoped_witness:
  "ApplicationCommand_copy 3
       \<lparr>cmd_callback = None, cmd_id = Some 42, cmd_type = CHAT_INPUT,
        cmd_application_id = Some 7, cmd_guild_id = None, cmd_name = ''roll'',
        cmd_description = ''Rolls a die'',
        cmd_options =
          Some [ApplicationCommandOption 0 INTEGER ''sides'' ''temporary description'' False
                  (Some [ApplicationCommandOptionChoice ''six'' (IntValue 6)]) None None None
                  None False],
        cmd_default_permission = True, cmd_default_member_permissions = None,
        cmd_dm_permission = None, cmd_version = Some 1, cmd_cog = None\<rparr>
     = Inr (\<lparr>cmd_callback = None, cmd_id = None, cmd_type = CHAT_INPUT,
             cmd_application_id = None, cmd_guild_id = None, cmd_name = ''roll'',
             cmd_description = ''Rolls a die'',
             cmd_options =
               Some [ApplicationCommandOption 0 INTEGER ''sides'' ''temporary description'' False
                       (Some [ApplicationCommandOptionChoice ''six'' (IntValue 6)]) None None
                       None None False],
             cmd_default_permission = True, cmd_default_member_permissions = None,
             cmd_dm_permission = None, cmd_version = None, cmd_cog = None\<rparr>, 3)
   \<and> ApplicationCommand_eq
         \<lparr>cmd_callback = None, cmd_id = None, cmd_type = CHAT_INPUT,
          cmd_application_id = None, cmd_guild_id = None, cmd_name = ''roll'',
          cmd_description = ''Rolls a die'',
          cmd_options =
            Some [ApplicationCommandOption 0 INTEGER ''sides'' ''temporary description'' False
                    (Some [ApplicationCommandOptionChoice ''six'' (IntValue 6)]) None None None
                    None False],
          cmd_default_permission = True, cmd_default_member_permissions = None,
          cmd_dm_permission = None, cmd_version = None, cmd_cog = None\<rparr>
         \<lparr>cmd_callback = None, cmd_id = Some 42, cmd_type = CHAT_INPUT,
          cmd_application_id = Some 7, cmd_guild_id = None, cmd_name = ''roll'',
          cmd_description = ''Rolls a die'',
          cmd_options =
            Some [ApplicationCommandOption 0 INTEGER ''sides'' ''temporary description'' False
                    (Some [ApplicationCommandOptionChoice ''six'' (IntValue 6)]) None None None
                    None False],
          cmd_default_permission = True, cmd_default_member_permissions = None,
          cmd_dm_permission = None, cmd_version = Some 1, cmd_cog = None\<rparr>"
  using C4_copy_eq_iff_unscoped
    [of 3 "\<lparr>cmd_callback = None, cmd_id = Some 42, cmd_type = CHAT_INPUT,
        cmd_application_id = Some 7, cmd_guild_id = None, cmd_name = ''roll'',
        cmd_description = ''Rolls a die'',
        cmd_options =
          Some [ApplicationCommandOption 0 INTEGER ''sides'' ''temporary description'' False
                  (Some [ApplicationCommandOptionChoice ''six'' (IntValue 6)]) None None None
                  None False],
        cmd_default_permission = True, cmd_default_member_permissions = None,
        cmd_dm_permission = None, cmd_version = Some 1, cmd_cog = None\<rparr>"]
  by simp

subsection \<open>Annotations of a callback\<close>

lemma any_issubclass_iff: "any_issubclass bs d = (\<exists>b\<in>set bs. issubclass b d)"
  by (induction bs) simp_all

lemma issubclass_refl: "issubclass c c"
  by (cases c) simp

text \<open>Every subclass of \<^verbatim>\<open>bool\<close> is a subclass of \<^verbatim>\<open>int\<close>.\<close>

lemma issubclass_bool_int: "issubclass c bool_class \<Longrightarrow> issubclass c int_class"
proof (induction c)
  case (PyClass n bs)
  from PyClass.prems consider "PyClass n bs = bool_class"
    | b where "b \<in> set bs" "issubclass b bool_class"
    by (auto simp add: any_issubclass_iff)
  then show ?case
  proof cases
    case 1
    then have "bs = [int_class]" by (simp add: bool_class_def)
    then show ?thesis by (simp add: issubclass_refl)
  next
    case 2
    with PyClass.IH have "issubclass b int_class" by blast
    with 2 show ?thesis by (auto simp add: any_issubclass_iff)
  qed
qed

lemma annotation_option_type_bool:
  "annotation_option_type (AnnotationClass bool_class) = Inr INTEGER"
  by (simp add: bool_class_def int_class_def str_class_def object_class_def)

lemma annotation_option_type_never_BOOLEAN: "annotation_option_type a \<noteq> Inr BOOLEAN"
  by (cases a) (auto simp add: issubclass_bool_int)

text \<open>The options built from the annotations: one for each, with its name and its type.\<close>

lemma annotation_options_types:
  "annotation_options n anns = Inr (os, n') \<Longrightarrow>
     map (\<lambda>opt. Inr (opt_type opt)) os = map (\<lambda>a. annotation_option_type (snd a)) anns
     \<and> map opt_name os = map fst anns"
proof (induction anns arbitrary: n os n')
  case Nil
  then show ?case by simp
next
  case (Cons a anns)
  obtain arg_name arg_type where a: "a = (arg_name, arg_type)" by (cases a)
  from Cons.prems a obtain ty opt os' where
    ty: "annotation_option_type arg_type = Inr ty"
    and opt: "opt = ApplicationCommandOption n ty arg_name ''temporary description'' False None
                      None None None None False"
    and rest: "annotation_options (Suc n) anns = Inr (os', n')"
    and os: "os = opt # os'"
    by (auto split: sum.splits)
  from Cons.IH [OF rest] ty opt os a show ?case by simp
qed

text \<open>What a call of \<^verbatim>\<open>slash_command\<close> that returns has done.\<close>

lemma slash_command_result:
  assumes "slash_command cb name description guild_id st = Inr (command, st')"
  shows "pre_registration_commands st' = stage guild_id command (pre_registration_commands st)"
    and "cmd_guild_id command = guild_id"
    and "cb_annotations cb \<noteq> [] \<Longrightarrow>
           \<exists>os n. annotation_options (next_obj st) (cb_annotations cb) = Inr (os, n)
                  \<and> cmd_options command = Some os"
  using assms
  by (auto simp add: slash_command_def Let_def ApplicationCommand_init_def no_kwargs_def
      split: if_splits sum.splits prod.splits)

text \<open>
  C10. A parameter annotated with \<^verbatim>\<open>bool\<close> gets the type \<^verbatim>\<open>INTEGER\<close>; no annotation
  at all gets the type \<^verbatim>\<open>BOOLEAN\<close>, since every subclass of \<^verbatim>\<open>bool\<close> is a subclass of
  \<^verbatim>\<open>int\<close> and the test for \<^verbatim>\<open>int\<close> comes first; and when \<^verbatim>\<open>slash_command\<close> returns
  a command for a callback whose parameter at position \<open>i\<close> is annotated with \<^verbatim>\<open>bool\<close>,
  the option at position \<open>i\<close> of the command has the name of that parameter and the type
  \<^verbatim>\<open>INTEGER\<close>.
\<close>

theorem C10_bool_annotation_gives_INTEGER:
  assumes ok: "slash_command cb name description guild_id st = Inr (command, st')"
    and i: "i < length (cb_annotations cb)"
    and ann: "cb_annotations cb ! i = (arg_name, AnnotationClass bool_class)"
  shows "annotation_option_type (AnnotationClass bool_class) = Inr INTEGER
         \<and> (\<forall>a. annotation_option_type a \<noteq> Inr BOOLEAN)
         \<and> (\<exists>os. cmd_options command = Some os \<and> length os = length (cb_annotations cb)
                  \<and> opt_name (os ! i) = arg_name \<and> opt_type (os ! i) = INTEGER)"
proof -
  from i have "cb_annotations cb \<noteq> []" by auto
  with slash_command_result(3) [OF ok] obtain os n where
    os: "annotation_options (next_obj st) (cb_annotations cb) = Inr (os, n)"
    and opts: "cmd_options command = Some os" by blast
  from annotation_options_types [OF os] have
    types: "map (\<lambda>opt. Inr (opt_type opt)) os
              = map (\<lambda>a. annotation_option_type (snd a)) (cb_annotations cb)"
    and names: "map opt_name os = map fst (cb_annotations cb)" by simp_all
  from types have len: "length os = length (cb_annotations cb)"
    by (metis length_map)
  from types i len
  have "(Inr (opt_type (os ! i)) :: error + ApplicationCommandOptionType)
          = annotation_option_type (snd (cb_annotations cb ! i))"
    by (metis nth_map)
  with ann have ty: "opt_type (os ! i) = INTEGER"
    by (simp del: annotation_option_type.simps add: annotation_option_type_bool)
  from names i len have "opt_name (os ! i) = fst (cb_annotations cb ! i)"
    by (metis nth_map)
  with ann have "opt_name (os ! i) = arg_name" by simp
  with opts len ty annotation_option_type_bool annotation_option_type_never_BOOLEAN
  show ?thesis by blast
qed

theorem C10_bool_annotation_gives_INTEGER_witness:
  "slash_command
       \<lparr>cb_name = ''mute'', cb_doc = None,
        cb_annotations = [(''enabled'', AnnotationClass bool_class)]\<rparr>
       None None None initial_state
     = Inr (\<lparr>cmd_callback =
               Some \<lparr>cb_name = ''mute'', cb_doc = None,
                     cb_annotations = [(''enabled'', AnnotationClass bool_class)]\<rparr>,
             cmd_id = None, cmd_type = CHAT_INPUT, cmd_application_id = None,
             cmd_guild_id = None, cmd_name = ''mute'', cmd_description = ''No description yet'',
             cmd_options =
               Some [ApplicationCommandOption 0 INTEGER ''enabled'' ''temporary description''
                       False None None None None None False],
             cmd_default_permission = True, cmd_default_member_permissions = None,
             cmd_dm_permission = None, cmd_version = None, cmd_cog = None\<rparr>,
            initial_state
              \<lparr>next_obj := 1,
               pre_registration_commands :=
                 stage None
                   \<lparr>cmd_callback =
                      Some \<lparr>cb_name = ''mute'', cb_doc = None,
                            cb_annotations = [(''enabled'', AnnotationClass bool_class)]\<rparr>,
                    cmd_id = None, cmd_type = CHAT_INPUT, cmd_application_id = None,
                    cmd_guild_id = None, cmd_name = ''mute'',
                    cmd_description = ''No description yet'',
                    cmd_options =
                      Some [ApplicationCommandOption 0 INTEGER ''enabled''
                              ''temporary description'' False None None None None None False],
                    cmd_default_permission = True, cmd_default_member_permissions = None,
                    cmd_dm_permission = None, cmd_version = None, cmd_cog = None\<rparr>
                   Map.empty\<rparr>)
   \<and> annotation_option_type (AnnotationClass bool_class) = Inr INTEGER"
proof -
  have ok: "slash_command
       \<lparr>cb_name = ''mute'', cb_doc = None,
        cb_annotations = [(''enabled'', AnnotationClass bool_class)]\<rparr>
       None None None initial_state
     = Inr (\<lparr>cmd_callback =
               Some \<lparr>cb_name = ''mute'', cb_doc = None,
                     cb_annotations = [(''enabled'', AnnotationClass bool_class)]\<rparr>,
             cmd_id = None, cmd_type = CHAT_INPUT, cmd_application_id = None,
             cmd_guild_id = None, cmd_name = ''mute'', cmd_description = ''No description yet'',
             cmd_options =
               Some [ApplicationCommandOption 0 INTEGER ''enabled'' ''temporary description''
                       False None None None None None False],
             cmd_default_permission = True, cmd_default_member_permissions = None,
             cmd_dm_permission = None, cmd_version = None, cmd_cog = None\<rparr>,
            initial_state
              \<lparr>next_obj := 1,
               pre_registration_commands :=
                 stage None
                   \<lparr>cmd_callback =
                      Some \<lparr>cb_name = ''mute'', cb_doc = None,
                            cb_annotations = [(''enabled'', AnnotationClass bool_class)]\<rparr>,
                    cmd_id = None, cmd_type = CHAT_INPUT, cmd_application_id = None,
                    cmd_guild_id = None, cmd_name = ''mute'',
                    cmd_description = ''No description yet'',
                    cmd_options =
                      Some [ApplicationCommandOption 0 INTEGER ''enabled''
                              ''temporary description'' False None None None None None False],
                    cmd_default_permission = True, cmd_default_member_permissions = None,
                    cmd_dm_permission = None, cmd_version = None, cmd_cog = None\<rparr>
                   Map.empty\<rparr>)"
    by (simp add: slash_command_def Let_def ApplicationCommand_init_def no_kwargs_def
        initial_state_def bool_class_def int_class_def str_class_def object_class_def)
  from C10_bool_annotation_gives_INTEGER [OF ok, of 0 "''enabled''"] ok
  show ?thesis by (simp del: annotation_option_type.simps)
qed

subsection \<open>Staging\<close>

lemma stage_eq: "stage g c reg = reg(g \<mapsto> staged reg g @ [c])"
  by (auto simp add: stage_def staged_def Let_def split: option.splits)

text \<open>
  One call of \<^verbatim>\<open>slash_command\<close> that returns: the command is put at the end of the list
  of its scope, and the dictionary is the same at every other key.
\<close>

lemma slash_command_stages:
  assumes "slash_command cb name description guild_id st = Inr (command, st')"
  shows "pre_registration_commands st'
           = (pre_registration_commands st)
               (guild_id \<mapsto> staged (pre_registration_commands st) guild_id @ [command])"
  using slash_command_result(1) [OF assms] by (simp add: stage_eq)

text \<open>
  C8. After any sequence of calls of \<^verbatim>\<open>slash_command\<close> that all return, the commands
  built have the scopes of the calls, in their order; under every scope key the list is
  the list from before followed by the commands built for that scope, in the order of the
  calls, none left out and none merged; and the keys are those from before and the scopes
  of the calls.
\<close>

theorem C8_staging_appends_in_order:
  assumes "slash_commands calls st = Inr (commands, st')"
  shows "map cmd_guild_id commands = map call_guild_id calls
     \<and> (\<forall>g. staged (pre_registration_commands st') g =
              staged (pre_registration_commands st) g @ filter (\<lambda>c. cmd_guild_id c = g) commands)
     \<and> dom (pre_registration_commands st')
         = dom (pre_registration_commands st) \<union> set (map call_guild_id calls)"
  using assms
proof (induction calls arbitrary: st commands st')
  case Nil
  then show ?case by simp
next
  case (Cons d ds)
  from Cons.prems obtain c st1 cs where
    first: "slash_command (call_callback d) (call_name d) (call_description d)
              (call_guild_id d) st = Inr (c, st1)"
    and rest: "slash_commands ds st1 = Inr (cs, st')"
    and commands: "commands = c # cs"
    by (auto split: sum.splits)
  have reg1: "pre_registration_commands st1 =
      (pre_registration_commands st)
        (call_guild_id d \<mapsto> staged (pre_registration_commands st) (call_guild_id d) @ [c])"
    using slash_command_stages [OF first] .
  have g: "cmd_guild_id c = call_guild_id d"
    using slash_command_result(2) [OF first] .
  from Cons.IH [OF rest] have
    ih1: "map cmd_guild_id cs = map call_guild_id ds"
    and ih2: "\<And>g. staged (pre_registration_commands st') g =
              staged (pre_registration_commands st1) g @ filter (\<lambda>c. cmd_guild_id c = g) cs"
    and ih3: "dom (pre_registration_commands st')
                = dom (pre_registration_commands st1) \<union> set (map call_guild_id ds)"
    by simp_all
  have "staged (pre_registration_commands st') h =
          staged (pre_registration_commands st) h @ filter (\<lambda>c. cmd_guild_id c = h) commands"
    for h
    using ih2 [of h] reg1 g commands by (simp add: staged_def)
  moreover have "dom (pre_registration_commands st') =
      dom (pre_registration_commands st) \<union> set (map call_guild_id (d # ds))"
    using ih3 reg1 by auto
  ultimately show ?case using ih1 g commands by simp
qed

theorem C8_staging_appends_in_order_witness:
  "slash_commands [ping_call None, ping_call (Some 5), ping_call None] initial_state
     = Inr ([ping_command None, ping_command (Some 5), ping_command None],
            initial_state
              \<lparr>pre_registration_commands :=
                 stage None (ping_command None)
                   (stage (Some 5) (ping_command (Some 5))
                      (stage None (ping_command None) Map.empty))\<rparr>)
   \<and> staged
         (stage None (ping_command None)
            (stage (Some 5) (ping_command (Some 5)) (stage None (ping_command None) Map.empty)))
         None
       = [ping_command None, ping_command None]
   \<and> staged
         (stage None (ping_command None)
            (stage (Some 5) (ping_command (Some 5)) (stage None (ping_command None) Map.empty)))
         (Some 5)
       = [ping_command (Some 5)]"
proof -
  have ok: "slash_commands [ping_call None, ping_call (Some 5), ping_call None] initial_state
     = Inr ([ping_command None, ping_command (Some 5), ping_command None],
            initial_state
              \<lparr>pre_registration_commands :=
                 stage None (ping_command None)
                   (stage (Some 5) (ping_command (Some 5))
                      (stage None (ping_command None) Map.empty))\<rparr>)"
    by (simp add: slash_command_def Let_def ApplicationCommand_init_def no_kwargs_def
        initial_state_def ping_call_def ping_command_def ping_callback_def)
  from C8_staging_appends_in_order [OF ok]
  have "\<forall>g. staged
         (stage None (ping_command None)
            (stage (Some 5) (ping_command (Some 5)) (stage None (ping_command None) Map.empty)))
         g
       = filter (\<lambda>c. cmd_guild_id c = g)
           [ping_command None, ping_command (Some 5), ping_command None]"
    by (simp add: initial_state_def staged_def)
  then have
    "staged
         (stage None (ping_command None)
            (stage (Some 5) (ping_command (Some 5)) (stage None (ping_command None) Map.empty)))
         None
       = filter (\<lambda>c. cmd_guild_id c = None)
           [ping_command None, ping_command (Some 5), ping_command None]"
    "staged
         (stage None (ping_command None)
            (stage (Some 5) (ping_command (Some 5)) (stage None (ping_command None) Map.empty)))
         (Some 5)
       = filter (\<lambda>c. cmd_guild_id c = Some 5)
           [ping_command None, ping_command (Some 5), ping_command None]"
    by blast+
  with ok show ?thesis by (simp add: ping_command_def)
qed

subsection \<open>Registration\<close>

text \<open>
  The requests of the loop: one for each guild in order, as far as the transport answers,
  each with the empty list as its \<^verbatim>\<open>json\<close>.
\<close>

lemma register_guilds_loop_sent:
  "register_guilds_loop http application_id [] guilds sent = (outcome, sent') \<Longrightarrow>
     \<exists>k\<le>length guilds.
        sent' = sent @ map (\<lambda>g. guild_request application_id g []) (take k guilds)
        \<and> (outcome = Inr () \<longrightarrow> k = length guilds)"
proof (induction guilds arbitrary: sent)
  case Nil
  then show ?case by simp
next
  case (Cons g gs)
  show ?case
  proof (cases "http (guild_request application_id g [])")
    case (Inl e)
    with Cons.prems
    have "sent' = sent @ map (\<lambda>g. guild_request application_id g []) (take 1 (g # gs))"
      and "outcome = Inl e"
      by simp_all
    then show ?thesis by (intro exI [of _ 1]) simp
  next
    case (Inr result)
    with Cons.prems
    have "register_guilds_loop http application_id [] gs (sent @ [guild_request application_id g []])
            = (outcome, sent')"
      by simp
    from Cons.IH [OF this] obtain k where
      "k \<le> length gs"
      "sent' = (sent @ [guild_request application_id g []])
                 @ map (\<lambda>g. guild_request application_id g []) (take k gs)"
      "outcome = Inr () \<longrightarrow> k = length gs" by blast
    then show ?thesis by (intro exI [of _ "Suc k"]) simp
  qed
qed

lemma register_commands_sent:
  assumes "register_commands b st = (outcome, sent, st')"
  shows "\<exists>k\<le>length (bot_guilds b). \<exists>a.
           sent = map (\<lambda>g. guild_request a g []) (take k (bot_guilds b))
           \<and> (outcome = Inr () \<longrightarrow> k = length (bot_guilds b))"
proof (cases "bot_application_info b")
  case (Inl e)
  with assms have "sent = []" "outcome = Inl e"
    by (simp_all add: register_commands_def)
  then show ?thesis by (intro exI [of _ 0]) simp
next
  case (Inr a)
  with assms
  have "register_guilds_loop (bot_http_request b) a [] (bot_guilds b) [] = (outcome, sent)"
    by (auto simp add: register_commands_def Let_def split: prod.splits)
  from register_guilds_loop_sent [OF this] show ?thesis by auto
qed

text \<open>
  The same loop with the answers of the transport: every request but the last one sent was
  answered, and the loop ends after the last guild or at the first request that fails.
\<close>

lemma register_guilds_loop_answers:
  "register_guilds_loop http application_id [] guilds sent = (outcome, sent') \<Longrightarrow>
     \<exists>k\<le>length guilds.
        sent' = sent @ map (\<lambda>g. guild_request application_id g []) (take k guilds)
        \<and> (\<forall>g\<in>set (take (k - 1) guilds).
              \<exists>result. http (guild_request application_id g []) = Inr result)
        \<and> (case outcome of
              Inr u \<Rightarrow> k = length guilds
                \<and> (\<forall>g\<in>set guilds. \<exists>result. http (guild_request application_id g []) = Inr result)
            | Inl e \<Rightarrow> 0 < k \<and> http (guild_request application_id (guilds ! (k - 1)) []) = Inl e)"
proof (induction guilds arbitrary: sent)
  case Nil
  then show ?case by auto
next
  case (Cons g gs)
  show ?case
  proof (cases "http (guild_request application_id g [])")
    case (Inl e)
    with Cons.prems
    have "sent' = sent @ map (\<lambda>g. guild_request application_id g []) (take 1 (g # gs))"
      and "outcome = Inl e"
      by simp_all
    with Inl show ?thesis by (intro exI [of _ 1]) simp
  next
    case (Inr result)
    with Cons.prems
    have "register_guilds_loop http application_id [] gs (sent @ [guild_request application_id g []])
            = (outcome, sent')"
      by simp
    from Cons.IH [OF this] obtain k where
      k: "k \<le> length gs"
      and s: "sent' = (sent @ [guild_request application_id g []])
                 @ map (\<lambda>g. guild_request application_id g []) (take k gs)"
      and before: "\<forall>g\<in>set (take (k - 1) gs).
              \<exists>result. http (guild_request application_id g []) = Inr result"
      and out: "(case outcome of
              Inr u \<Rightarrow> k = length gs
                \<and> (\<forall>g\<in>set gs. \<exists>result. http (guild_request application_id g []) = Inr result)
            | Inl e \<Rightarrow> 0 < k \<and> http (guild_request application_id (gs ! (k - 1)) []) = Inl e)"
      by blast
    have b': "\<forall>x\<in>set (take (Suc k - 1) (g # gs)).
              \<exists>result. http (guild_request application_id x []) = Inr result"
    proof (cases k)
      case 0
      then show ?thesis by simp
    next
      case (Suc j)
      with before Inr show ?thesis by auto
    qed
    have o': "(case outcome of
              Inr u \<Rightarrow> Suc k = length (g # gs)
                \<and> (\<forall>x\<in>set (g # gs). \<exists>result. http (guild_request application_id x []) = Inr result)
            | Inl e \<Rightarrow> 0 < Suc k \<and> http (guild_request application_id ((g # gs) ! (Suc k - 1)) []) = Inl e)"
      using out Inr by (cases outcome) (auto simp add: nth_Cons')
    from k s b' o' show ?thesis by (intro exI [of _ "Suc k"]) simp
  qed
qed


text \<open>
  C3, as the claim states it: no submission for a scope whose staged list is empty. With
  nothing staged at all, \<^verbatim>\<open>register_commands\<close> sends one request to each of the two
  guilds of the bot, with the empty list as the payload.
\<close>

theorem C3_empty_scope_gets_empty_overwrite:
  "register_commands echo_bot initial_state
     = (Inr (), [guild_request 7 1 [], guild_request 7 2 []], initial_state)
   \<and> staged (pre_registration_commands initial_state) (Some 1) = []
   \<and> req_json (guild_request 7 1 []) = []"
  by (simp add: register_commands_def echo_bot_def initial_state_def staged_def
      guild_request_def)

text \<open>
  C3, amended. Whatever is staged, \<^verbatim>\<open>register_commands\<close> sends nothing for the global
  scope: every request it sends is a \<^verbatim>\<open>PUT\<close> on the guild route with the empty list as
  its payload, and the requests are those of the guilds of the bot, one each and in order,
  up to and including the first one that the transport fails. Every request before the
  last one sent was answered. When the call returns, every guild has had its request and
  every request was answered; when it fails, either \<^verbatim>\<open>application_info\<close> failed and
  nothing was sent, or the last request sent is the one that failed, with the error of the
  call.
\<close>

theorem C3_one_empty_request_per_guild:
  assumes "register_commands b st = (outcome, sent, st')"
  shows "(\<forall>r\<in>set sent.
            req_json r = [] \<and> route_method (req_route r) = ''PUT''
            \<and> route_path (req_route r)
                = ''/applications/{application_id}/guilds/{guild_id}/commands'')
         \<and> map (\<lambda>r. route_guild_id (req_route r)) sent = take (length sent) (bot_guilds b)
         \<and> (\<forall>a. bot_application_info b = Inr a \<longrightarrow>
               sent = map (\<lambda>g. guild_request a g []) (take (length sent) (bot_guilds b)))
         \<and> (\<forall>r\<in>set (butlast sent). \<exists>result. bot_http_request b r = Inr result)
         \<and> (case outcome of
               Inr u \<Rightarrow>
                 (\<exists>a. bot_application_info b = Inr a)
                 \<and> length sent = length (bot_guilds b)
                 \<and> (\<forall>r\<in>set sent. \<exists>result. bot_http_request b r = Inr result)
             | Inl e \<Rightarrow>
                 (bot_application_info b = Inl e \<and> sent = [])
                 \<or> ((\<exists>a. bot_application_info b = Inr a) \<and> sent \<noteq> []
                     \<and> bot_http_request b (last sent) = Inl e))"
proof (cases "bot_application_info b")
  case (Inl e)
  with assms have "sent = []" "outcome = Inl e"
    by (simp_all add: register_commands_def)
  with Inl show ?thesis by simp
next
  case (Inr a)
  let ?req = "\<lambda>g. guild_request a g []"
  let ?http = "bot_http_request b"
  from Inr assms
  have "register_guilds_loop ?http a [] (bot_guilds b) [] = (outcome, sent)"
    by (auto simp add: register_commands_def Let_def split: prod.splits)
  from register_guilds_loop_answers [OF this] obtain k where
    k: "k \<le> length (bot_guilds b)"
    and sent: "sent = map ?req (take k (bot_guilds b))"
    and before: "\<forall>g\<in>set (take (k - 1) (bot_guilds b)). \<exists>result. ?http (?req g) = Inr result"
    and out: "(case outcome of
              Inr u \<Rightarrow> k = length (bot_guilds b)
                \<and> (\<forall>g\<in>set (bot_guilds b). \<exists>result. ?http (?req g) = Inr result)
            | Inl e \<Rightarrow> 0 < k \<and> ?http (?req (bot_guilds b ! (k - 1))) = Inl e)"
    by auto
  from k sent have len: "length sent = k" by simp
  have fields: "\<forall>r\<in>set sent.
            req_json r = [] \<and> route_method (req_route r) = ''PUT''
            \<and> route_path (req_route r)
                = ''/applications/{application_id}/guilds/{guild_id}/commands''"
    by (auto simp add: sent guild_request_def)
  have guilds: "map (\<lambda>r. route_guild_id (req_route r)) sent = take (length sent) (bot_guilds b)"
    unfolding len by (simp add: sent guild_request_def comp_def)
  have exact: "\<forall>a'. bot_application_info b = Inr a' \<longrightarrow>
               sent = map (\<lambda>g. guild_request a' g []) (take (length sent) (bot_guilds b))"
    using Inr sent len by simp
  have "butlast sent = map ?req (take (k - 1) (bot_guilds b))"
    using k by (simp add: sent map_butlast [symmetric] butlast_take)
  with before have bl: "\<forall>r\<in>set (butlast sent). \<exists>result. ?http r = Inr result"
    by auto
  have last: "(case outcome of
               Inr u \<Rightarrow>
                 (\<exists>a. bot_application_info b = Inr a)
                 \<and> length sent = length (bot_guilds b)
                 \<and> (\<forall>r\<in>set sent. \<exists>result. ?http r = Inr result)
             | Inl e \<Rightarrow>
                 (bot_application_info b = Inl e \<and> sent = [])
                 \<or> ((\<exists>a. bot_application_info b = Inr a) \<and> sent \<noteq> []
                     \<and> ?http (last sent) = Inl e))"
  proof (cases outcome)
    case (Inl e)
    with out have pos: "0 < k" and fail: "?http (?req (bot_guilds b ! (k - 1))) = Inl e"
      by simp_all
    from pos k have ne: "take k (bot_guilds b) \<noteq> []" by auto
    from ne pos k have "last (take k (bot_guilds b)) = bot_guilds b ! (k - 1)"
      by (simp add: last_conv_nth min_absorb2)
    with ne have "last sent = ?req (bot_guilds b ! (k - 1))"
      by (simp add: sent last_map)
    with fail ne Inl Inr show ?thesis by (simp add: sent)
  next
    case (Inr u)
    with out have "k = length (bot_guilds b)"
      and "\<forall>g\<in>set (bot_guilds b). \<exists>result. ?http (?req g) = Inr result"
      by simp_all
    with Inr \<open>bot_application_info b = Inr a\<close> len show ?thesis by (auto simp add: sent)
  qed
  from fields guilds exact bl last show ?thesis by blast
qed


theorem C3_one_empty_request_per_guild_witness:
  "register_commands failing_bot
       (initial_state\<lparr>pre_registration_commands := [None \<mapsto> [ping_command None]]\<rparr>)
     = (Inl HTTPException, [guild_request 7 1 [], guild_request 7 2 []],
        initial_state\<lparr>pre_registration_commands := [None \<mapsto> [ping_command None]]\<rparr>)
   \<and> map (\<lambda>r. route_guild_id (req_route r)) [guild_request 7 1 [], guild_request 7 2 []]
       = take 2 (bot_guilds failing_bot)
   \<and> map req_json [guild_request 7 1 [], guild_request 7 2 []] = [[], []]
   \<and> bot_http_request failing_bot (guild_request 7 1 []) = Inr []
   \<and> bot_http_request failing_bot (guild_request 7 2 []) = Inl HTTPException"
proof -
  have run: "register_commands failing_bot
       (initial_state\<lparr>pre_registration_commands := [None \<mapsto> [ping_command None]]\<rparr>)
     = (Inl HTTPException, [guild_request 7 1 [], guild_request 7 2 []],
        initial_state\<lparr>pre_registration_commands := [None \<mapsto> [ping_command None]]\<rparr>)"
    by (simp add: register_commands_def failing_bot_def guild_request_def)
  from C3_one_empty_request_per_guild [OF run] run show ?thesis
    by (simp add: failing_bot_def)
qed

text \<open>
  C2, as the claim states it: after a call that succeeds and returns as many entries as
  definitions were submitted, the local commands of the scope carry the identity of the
  entries. With \<^verbatim>\<open>ping\<close> staged for guild 1, the request for guild 1 submits no
  definition, the transport returns no entry, and \<^verbatim>\<open>ping\<close> still has no
  \<^verbatim>\<open>id\<close>, \<^verbatim>\<open>application_id\<close> or \<^verbatim>\<open>version\<close> after the call.
\<close>

theorem C2_staged_command_gets_no_identity:
  "register_commands echo_bot
       (initial_state\<lparr>pre_registration_commands := [Some 1 \<mapsto> [ping_command (Some 1)]]\<rparr>)
     = (Inr (), [guild_request 7 1 [], guild_request 7 2 []],
        initial_state\<lparr>pre_registration_commands := [Some 1 \<mapsto> [ping_command (Some 1)]]\<rparr>)
   \<and> bot_http_request echo_bot (guild_request 7 1 []) = Inr []
   \<and> cmd_id (ping_command (Some 1)) = None
   \<and> cmd_application_id (ping_command (Some 1)) = None
   \<and> cmd_version (ping_command (Some 1)) = None"
  by (simp add: register_commands_def echo_bot_def guild_request_def ping_command_def)

text \<open>
  C2, amended. Whatever the transport returns, \<^verbatim>\<open>register_commands\<close> leaves the module
  state as it was: every staged or registered command keeps every field, the identity
  fields included. The payload of every request is the empty list.
\<close>

theorem C2_register_commands_changes_nothing:
  assumes "register_commands b st = (outcome, sent, st')"
  shows "st' = st \<and> map req_json sent = replicate (length sent) []"
proof -
  have "st' = st" using assms
    by (auto simp add: register_commands_def Let_def split: sum.splits prod.splits)
  moreover from register_commands_sent [OF assms]
  have "map req_json sent = replicate (length sent) []"
    by (auto simp add: guild_request_def comp_def map_replicate_const)
  ultimately show ?thesis by simp
qed

theorem C2_register_commands_changes_nothing_witness:
  "register_commands
       (echo_bot\<lparr>bot_http_request :=
                   (\<lambda>req. Inr [\<lparr>r_id = 42, r_application_id = 7, r_version = 1\<rparr>])\<rparr>)
       (initial_state\<lparr>pre_registration_commands := [Some 1 \<mapsto> [ping_command (Some 1)]]\<rparr>)
     = (Inr (), [guild_request 7 1 [], guild_request 7 2 []],
        initial_state\<lparr>pre_registration_commands := [Some 1 \<mapsto> [ping_command (Some 1)]]\<rparr>)
   \<and> map req_json [guild_request 7 1 [], guild_request 7 2 []] = [[], []]"
proof -
  have run: "register_commands
       (echo_bot\<lparr>bot_http_request :=
                   (\<lambda>req. Inr [\<lparr>r_id = 42, r_application_id = 7, r_version = 1\<rparr>])\<rparr>)
       (initial_state\<lparr>pre_registration_commands := [Some 1 \<mapsto> [ping_command (Some 1)]]\<rparr>)
     = (Inr (), [guild_request 7 1 [], guild_request 7 2 []],
        initial_state\<lparr>pre_registration_commands := [Some 1 \<mapsto> [ping_command (Some 1)]]\<rparr>)"
    by (simp add: register_commands_def echo_bot_def guild_request_def)
  from C2_register_commands_changes_nothing [OF run] run show ?thesis
    by (simp add: numeral_2_eq_2)
qed

subsection \<open>Serializing and reading back\<close>

text \<open>
  The value of a member is found again by the call of its enumeration; for the option
  type the member found may be another one with the same value.
\<close>

lemma option_type_call_value:
  "\<exists>t'. ApplicationCommandOptionType_call (ApplicationCommandOptionType_value t) = Inr t'
        \<and> ApplicationCommandOptionType_value t' = ApplicationCommandOptionType_value t"
  by (cases t)
     (simp_all add: ApplicationCommandOptionType_call_def ApplicationCommandOptionType_members_def)

lemma command_type_call_value:
  "ApplicationCommandType_call (ApplicationCommandType_value t) = Inr t"
  by (cases t)
     (simp_all add: ApplicationCommandType_call_def ApplicationCommandType_members_def)

lemma plain_option_roundtrip:
  assumes "plain_option opt"
  shows "\<exists>data opt'. ApplicationCommandOption_repr opt = Inr data
           \<and> ApplicationCommandOption_init n data = Inr (opt', Suc n)
           \<and> ApplicationCommandOption_eq opt' opt"
proof -
  obtain i ty name description required choices options channel_types min_value max_value
    autocomplete where opt: "opt = ApplicationCommandOption i ty name description required
      choices options channel_types min_value max_value autocomplete"
    by (cases opt)
  obtain t' where
    t': "ApplicationCommandOptionType_call (ApplicationCommandOptionType_value ty) = Inr t'"
      "ApplicationCommandOptionType_value t' = ApplicationCommandOptionType_value ty"
    using option_type_call_value by blast
  from assms opt have ct: "channel_types = None \<or> channel_types = Some []"
    and co: "(choices = None \<and> options = None) \<or> (choices = Some [] \<and> options = Some [])"
    by (simp_all add: plain_option_def)
  from ct co t' show ?thesis
    by (auto simp add: opt)
qed

lemma plain_options_roundtrip:
  "list_all plain_option os \<Longrightarrow>
     \<exists>ks os'. repr_options_loop os = Inr ks
        \<and> init_options_loop n ks = Inr (os', n + length os)
        \<and> \<not> options_ne os' os"
proof (induction os arbitrary: n)
  case Nil
  then show ?case by simp
next
  case (Cons opt os)
  from Cons.prems have p: "plain_option opt" and ps: "list_all plain_option os" by simp_all
  from plain_option_roundtrip [OF p, of n] obtain k opt' where
    k: "ApplicationCommandOption_repr opt = Inr k"
    and opt': "ApplicationCommandOption_init n k = Inr (opt', Suc n)"
    and eq: "ApplicationCommandOption_eq opt' opt" by blast
  from Cons.IH [OF ps, of "Suc n"] obtain ks os' where
    ks: "repr_options_loop os = Inr ks"
    and os': "init_options_loop (Suc n) ks = Inr (os', Suc n + length os)"
    and ne: "\<not> options_ne os' os" by blast
  from k ks have "repr_options_loop (opt # os) = Inr (k # ks)" by simp
  moreover from opt' os'
  have "init_options_loop n (k # ks) = Inr (opt' # os', n + length (opt # os))"
    by simp
  moreover from eq ne have "\<not> options_ne (opt' # os') (opt # os)" by simp
  ultimately show ?case by blast
qed

lemma command_roundtrip:
  assumes dmp: "cmd_default_member_permissions d = None"
    and dm: "cmd_dm_permission d = None"
    and plain: "\<forall>os. cmd_options d = Some os \<longrightarrow> list_all plain_option os"
  shows "\<exists>data d' n'. ApplicationCommand_repr d = Inr data
           \<and> ApplicationCommand_from_payload n (Some data) = Inr (d', n')
           \<and> ApplicationCommand_eq d' d"
proof (cases "cmd_options d")
  case None
  with dmp dm show ?thesis
    by (simp add: ApplicationCommand_repr_def ApplicationCommand_init_def no_kwargs_def
        command_type_call_value ApplicationCommand_eq_def)
next
  case (Some os)
  with plain have "list_all plain_option os" by simp
  from plain_options_roundtrip [OF this, of n] obtain ks os' where
    ks: "repr_options_loop os = Inr ks"
    and os': "init_options_loop n ks = Inr (os', n + length os)"
    and ne: "\<not> options_ne os' os" by blast
  with Some dmp dm show ?thesis
    by (simp add: ApplicationCommand_repr_def ApplicationCommand_init_def no_kwargs_def
        command_type_call_value ApplicationCommand_eq_def)
qed

text \<open>
  C5, as the claim states it: the way through the mapping gives an equal value for every
  combination of optional fields. A command with \<^verbatim>\<open>dm_permission\<close> set comes back
  without it, since \<^verbatim>\<open>__repr__\<close> writes no such key, and is not equal to the original;
  an option with a channel type comes back with the plain integer in the place of the
  member, and is not equal to the original.
\<close>

theorem C5_roundtrip_loses_fields:
  "ApplicationCommand_repr ((ping_command None)\<lparr>cmd_dm_permission := Some True\<rparr>)
     = Inr (no_kwargs
              \<lparr>kc_name := Some ''ping'', kc_description := Some ''Replies with pong'',
               kc_type := Some (CommandTypeInt 1), kc_default_permission := Some True\<rparr>)
   \<and> ApplicationCommand_from_payload 0
         (Some (no_kwargs
                  \<lparr>kc_name := Some ''ping'', kc_description := Some ''Replies with pong'',
                   kc_type := Some (CommandTypeInt 1), kc_default_permission := Some True\<rparr>))
       = Inr ((ping_command None)\<lparr>cmd_callback := None\<rparr>, 0)
   \<and> \<not> ApplicationCommand_eq
         ((ping_command None)\<lparr>cmd_callback := None\<rparr>)
         ((ping_command None)\<lparr>cmd_dm_permission := Some True\<rparr>)
   \<and> ApplicationCommandOption_repr
         (ApplicationCommandOption 0 CHANNEL ''where'' ''a channel'' False None None
            (Some [ChannelTypeMember 0]) None None False)
       = Inr (OptionKwargs (Some (TypeInt 7)) (Some ''where'') (Some ''a channel'') (Some False)
                None None (Some [ChannelTypeInt 0]) None None (Some False))
   \<and> ApplicationCommandOption_from_payload 1
         (Some (OptionKwargs (Some (TypeInt 7)) (Some ''where'') (Some ''a channel'')
                  (Some False) None None (Some [ChannelTypeInt 0]) None None (Some False)))
       = Inr (ApplicationCommandOption 1 CHANNEL ''where'' ''a channel'' False None None
                (Some [ChannelTypeInt 0]) None None False, 2)
   \<and> \<not> ApplicationCommandOption_eq
         (ApplicationCommandOption 1 CHANNEL ''where'' ''a channel'' False None None
            (Some [ChannelTypeInt 0]) None None False)
         (ApplicationCommandOption 0 CHANNEL ''where'' ''a channel'' False None None
            (Some [ChannelTypeMember 0]) None None False)"
  by (simp add: ApplicationCommand_repr_def ApplicationCommand_init_def no_kwargs_def
      ApplicationCommand_eq_def ping_command_def ApplicationCommandType_call_def
      ApplicationCommandType_members_def ApplicationCommandOptionType_call_def
      ApplicationCommandOptionType_members_def)

text \<open>
  C5, amended. For every option with no channel type whose choices and nested options are
  both absent or both empty, whatever its other fields, \<^verbatim>\<open>__repr__\<close> returns a mapping,
  \<^verbatim>\<open>from_payload\<close> builds an option from it, and that option is equal to the original.
  For every command with no \<^verbatim>\<open>default_member_permissions\<close> and no \<^verbatim>\<open>dm_permission\<close>
  whose options, when it has some, are all of that kind, whatever its other fields (guild,
  identity fields, \<^verbatim>\<open>default_permission\<close>), \<^verbatim>\<open>__repr__\<close> returns a mapping,
  \<^verbatim>\<open>from_payload\<close> builds a command from it, and that command is equal to the original.
\<close>

theorem C5_roundtrip_of_plain_values:
  "(plain_option opt \<longrightarrow>
      (\<exists>data opt'. ApplicationCommandOption_repr opt = Inr data
          \<and> ApplicationCommandOption_from_payload n (Some data) = Inr (opt', Suc n)
          \<and> ApplicationCommandOption_eq opt' opt))
   \<and> (cmd_default_member_permissions d = None \<and> cmd_dm_permission d = None
       \<and> (\<forall>os. cmd_options d = Some os \<longrightarrow> list_all plain_option os) \<longrightarrow>
      (\<exists>data d' n'. ApplicationCommand_repr d = Inr data
          \<and> ApplicationCommand_from_payload n (Some data) = Inr (d', n')
          \<and> ApplicationCommand_eq d' d))"
  using plain_option_roundtrip [of opt n] command_roundtrip [of d n]
  by simp

theorem C5_roundtrip_of_plain_values_witness:
  "plain_option
       (ApplicationCommandOption 0 INTEGER ''sides'' ''how many sides'' True None None None
          (Some 2) (Some 20) False)
   \<and> (\<exists>data opt'.
         ApplicationCommandOption_repr
             (ApplicationCommandOption 0 INTEGER ''sides'' ''how many sides'' True None None
                None (Some 2) (Some 20) False)
           = Inr data
         \<and> ApplicationCommandOption_from_payload 1 (Some data) = Inr (opt', Suc 1)
         \<and> ApplicationCommandOption_eq opt'
             (ApplicationCommandOption 0 INTEGER ''sides'' ''how many sides'' True None None
                None (Some 2) (Some 20) False))
   \<and> (\<exists>data d' n'.
         ApplicationCommand_repr
             ((ping_command (Some 5))
                \<lparr>cmd_id := Some 42,
                 cmd_options :=
                   Some [ApplicationCommandOption 0 INTEGER ''sides'' ''how many sides'' True
                           None None None (Some 2) (Some 20) False]\<rparr>)
           = Inr data
         \<and> ApplicationCommand_from_payload 1 (Some data) = Inr (d', n')
         \<and> ApplicationCommand_eq d'
             ((ping_command (Some 5))
                \<lparr>cmd_id := Some 42,
                 cmd_options :=
                   Some [ApplicationCommandOption 0 INTEGER ''sides'' ''how many sides'' True
                           None None None (Some 2) (Some 20) False]\<rparr>))"
proof -
  have p: "plain_option
       (ApplicationCommandOption 0 INTEGER ''sides'' ''how many sides'' True None None None
          (Some 2) (Some 20) False)"
    by (simp add: plain_option_def)
  have q: "cmd_default_member_permissions
             ((ping_command (Some 5))
                \<lparr>cmd_id := Some 42,
                 cmd_options :=
                   Some [ApplicationCommandOption 0 INTEGER ''sides'' ''how many sides'' True
                           None None None (Some 2) (Some 20) False]\<rparr>) = None
      \<and> cmd_dm_permission
             ((ping_command (Some 5))
                \<lparr>cmd_id := Some 42,
                 cmd_options :=
                   Some [ApplicationCommandOption 0 INTEGER ''sides'' ''how many sides'' True
                           None None None (Some 2) (Some 20) False]\<rparr>) = None
      \<and> (\<forall>os. cmd_options
             ((ping_command (Some 5))
                \<lparr>cmd_id := Some 42,
                 cmd_options :=
                   Some [ApplicationCommandOption 0 INTEGER ''sides'' ''how many sides'' True
                           None None None (Some 2) (Some 20) False]\<rparr>) = Some os
             \<longrightarrow> list_all plain_option os)"
    by (simp add: ping_command_def plain_option_def)
  from p q C5_roundtrip_of_plain_values
    [of "ApplicationCommandOption 0 INTEGER ''sides'' ''how many sides'' True None None None
           (Some 2) (Some 20) False"
        1
        "(ping_command (Some 5))
                \<lparr>cmd_id := Some 42,
                 cmd_options :=
                   Some [ApplicationCommandOption 0 INTEGER ''sides'' ''how many sides'' True
                           None None None (Some 2) (Some 20) False]\<rparr>"]
  show ?thesis
    by blast
qed

end
